theory Spec2Isabelle
  imports Main "HOL-Library.Word"
begin

unbundle bit_operations_syntax

section \<open>Data model of \<open>kernel/c_entry/main.c\<close>\<close>

text \<open>
  Addresses are 64-bit words (the kernel runs in long mode). \<open>uint32_t\<close>,
  \<open>uint64_t\<close>, \<open>unsigned short\<close> and \<open>int\<close> are words of their width.
\<close>

type_synonym addr = "64 word"

text \<open>The struct \<open>BootInfo\<close>, field by field, in the order of the source.\<close>

record BootInfo =
  multiboot_magic :: "32 word"
  multiboot_info :: "32 word"
  cpuid_edx :: "32 word"
  cpuid_ecx :: "32 word"
  page_table_base :: "64 word"
  stack_top :: "64 word"
  framebuffer_addr :: "64 word"
  memory_map_addr :: "64 word"
  kernel_entry :: "64 word"
  boot_entry :: "64 word"

text \<open>
  The struct \<open>ValidatedBootInfo\<close>: \<open>input\<close> is the pointer to the descriptor
  (an address, not a copy), \<open>validity\<close> the verdict.
\<close>

record ValidatedBootInfo =
  input :: addr
  validity :: bool

text \<open>
  What the code does to the outside is kept as a trace: every store through a
  pointer and every call of an \<open>extern\<close> function, in program order.
\<close>

datatype event =
    StoreW16 addr "16 word"
  | StoreInt addr "32 word"
  | CallErrnoLocation
  | CallRustKernelEntry ValidatedBootInfo

text \<open>
  Memory is one array of bytes, indexed by address: the descriptor, the text
  buffer and the diagnostic code all live in it, and a store changes whatever
  object holds the bytes it writes. \<open>errno_location\<close> is the address that the
  external function \<open>__errno_location\<close> answers with.
\<close>

record state =
  mem :: "addr \<Rightarrow> 8 word"
  errno_location :: addr
  trace :: "event list"

section \<open>Bytes and objects\<close>

text \<open>
  The machine is little-endian (x86-64): the first byte of an object is the
  least significant one. \<open>le_word\<close> reads a word from its bytes, \<open>le_bytes n\<close>
  gives the \<open>n\<close> bytes of a word.
\<close>

fun le_word :: "8 word list \<Rightarrow> 'a::len word" where
  "le_word [] = 0"
| "le_word (b # bs) = ucast b OR push_bit 8 (le_word bs)"

fun le_bytes :: "nat \<Rightarrow> 'a::len word \<Rightarrow> 8 word list" where
  "le_bytes 0 v = []"
| "le_bytes (Suc n) v = ucast v # le_bytes n (drop_bit 8 v)"

text \<open>
  Address \<open>a\<close> is one of the \<open>n\<close> bytes that start at \<open>p\<close> (addresses wrap
  around at \<open>2 ^ 64\<close>).
\<close>

definition in_range :: "addr \<Rightarrow> addr \<Rightarrow> nat \<Rightarrow> bool" where
  "in_range a p n = (unat (a - p) < n)"

text \<open>
  The \<open>n\<close> bytes at \<open>p\<close> and the \<open>k\<close> bytes at \<open>q\<close> have no byte in common:
  going up from \<open>p\<close> one meets \<open>q\<close> only after \<open>n\<close> bytes, and going up from
  \<open>q\<close> one meets \<open>p\<close> only after \<open>k\<close> bytes.
\<close>

definition ranges_disjoint :: "addr \<Rightarrow> nat \<Rightarrow> addr \<Rightarrow> nat \<Rightarrow> bool" where
  "ranges_disjoint p n q k = (n \<le> unat (q - p) \<and> k \<le> unat (p - q))"

text \<open>The \<open>n\<close> bytes from offset \<open>off\<close> of the object at \<open>p\<close>.\<close>

definition load :: "(addr \<Rightarrow> 8 word) \<Rightarrow> addr \<Rightarrow> nat \<Rightarrow> nat \<Rightarrow> 8 word list" where
  "load m p off n = map (\<lambda>i. m (p + of_nat (off + i))) [0..<n]"

text \<open>Memory \<open>m\<close> with the bytes \<open>bs\<close> written from address \<open>p\<close> on.\<close>

definition store_bytes :: "(addr \<Rightarrow> 8 word) \<Rightarrow> addr \<Rightarrow> 8 word list \<Rightarrow> (addr \<Rightarrow> 8 word)" where
  "store_bytes m p bs = (\<lambda>a. if in_range a p (length bs) then bs ! unat (a - p) else m a)"

text \<open>
  Reading through a pointer. An \<open>unsigned short\<close> is 2 bytes, an \<open>int\<close> and a
  \<open>uint32_t\<close> 4, a \<open>uint64_t\<close> 8. The fields of a \<open>BootInfo\<close> lie at the
  offsets 0, 4, 8, 12, 16, 24, 32, 40, 48 and 56 (each field is aligned as it
  comes, so there is no padding), 64 bytes in all.
\<close>

definition heap_w16 :: "state \<Rightarrow> addr \<Rightarrow> 16 word" where
  "heap_w16 s p = le_word (load (mem s) p 0 2)"

definition heap_int :: "state \<Rightarrow> addr \<Rightarrow> 32 word" where
  "heap_int s p = le_word (load (mem s) p 0 4)"

definition heap_BootInfo :: "state \<Rightarrow> addr \<Rightarrow> BootInfo" where
  "heap_BootInfo s p =
     \<lparr>multiboot_magic = le_word (load (mem s) p 0 4),
      multiboot_info = le_word (load (mem s) p 4 4),
      cpuid_edx = le_word (load (mem s) p 8 4),
      cpuid_ecx = le_word (load (mem s) p 12 4),
      page_table_base = le_word (load (mem s) p 16 8),
      stack_top = le_word (load (mem s) p 24 8),
      framebuffer_addr = le_word (load (mem s) p 32 8),
      memory_map_addr = le_word (load (mem s) p 40 8),
      kernel_entry = le_word (load (mem s) p 48 8),
      boot_entry = le_word (load (mem s) p 56 8)\<rparr>"

section \<open>Memory operations\<close>

definition emit :: "event \<Rightarrow> state \<Rightarrow> state" where
  "emit e s = s\<lparr>trace := trace s @ [e]\<rparr>"

text \<open>\<open>*p = v\<close> for \<open>unsigned short *p\<close>: two bytes are written.\<close>

definition store_w16 :: "addr \<Rightarrow> 16 word \<Rightarrow> state \<Rightarrow> state" where
  "store_w16 p v s = emit (StoreW16 p v) (s\<lparr>mem := store_bytes (mem s) p (le_bytes 2 v)\<rparr>)"

text \<open>\<open>*p = v\<close> for \<open>int *p\<close>: four bytes are written.\<close>

definition store_int :: "addr \<Rightarrow> 32 word \<Rightarrow> state \<Rightarrow> state" where
  "store_int p v s = emit (StoreInt p v) (s\<lparr>mem := store_bytes (mem s) p (le_bytes 4 v)\<rparr>)"

text \<open>
  The call \<open>__errno_location()\<close>: it answers with the address of the diagnostic
  code and leaves the memory as it is.
\<close>

definition call_errno_location :: "state \<Rightarrow> addr \<times> state" where
  "call_errno_location s = (errno_location s, emit CallErrnoLocation s)"

text \<open>\<open>vga\<close> is \<open>(unsigned short*)0xB8000\<close>; \<open>vga[i]\<close> is the cell two bytes times \<open>i\<close> further.\<close>

definition vga :: addr where
  "vga = 0xB8000"

definition index_w16 :: "addr \<Rightarrow> nat \<Rightarrow> addr" where
  "index_w16 p i = p + 2 * of_nat i"

text \<open>The diagnostic code: the \<open>int\<close> at the address \<open>__errno_location\<close> answers with.\<close>

definition errno :: "state \<Rightarrow> 32 word" where
  "errno s = heap_int s (errno_location s)"

text \<open>The events a run from \<open>s\<close> to \<open>s'\<close> has added to the trace.\<close>

definition emitted :: "state \<Rightarrow> state \<Rightarrow> event list" where
  "emitted s s' = drop (length (trace s)) (trace s')"

section \<open>The validator\<close>

text \<open>
  \<open>validate_boot_info\<close> (lines 31 to 58): the six checks in the order of the
  source, each failing check storing its code and returning \<open>false\<close> at once.
  No store comes before the last read of a field, so the descriptor is read
  once.
\<close>

definition validate_boot_info :: "addr \<Rightarrow> state \<Rightarrow> bool \<times> state" where
  "validate_boot_info bi s0 =
     (let (errno_p, s) = call_errno_location s0;
          b = heap_BootInfo s bi
      in if multiboot_magic b \<noteq> 0x36d76289 then (False, store_int errno_p 7 s)
         else if page_table_base b = 0 \<or> (page_table_base b AND 0xFFF) \<noteq> 0
           then (False, store_int errno_p 2 s)
         else if stack_top b = 0 \<or> (stack_top b AND 0xF) \<noteq> 0
           then (False, store_int errno_p 2 s)
         else if kernel_entry b = 0 then (False, store_int errno_p 2 s)
         else if framebuffer_addr b = 0 then (False, store_int errno_p 2 s)
         else if memory_map_addr b = 0 then (False, store_int errno_p 2 s)
         else (True, s))"

section \<open>The entry shim\<close>

text \<open>
  The next stage, \<open>rust_kernel_entry\<close>, is declared \<open>extern\<close>: its behaviour
  is a parameter. It receives the \<open>ValidatedBootInfo\<close> and the state at the
  call; \<open>None\<close> stands for a call that never returns, \<open>Some s\<close> for a call that
  returns in state \<open>s\<close>.
\<close>

type_synonym next_stage = "ValidatedBootInfo \<Rightarrow> state \<Rightarrow> state option"

text \<open>
  Lines 62 to 75 of \<open>kernel_main\<close>: the four stores to the text buffer, then
  the initialiser of \<open>vbi\<close>, which calls the validator. The magic number is
  read from the memory as the stores before have left it. The arithmetic of
  lines 69 and 70 is \<open>unsigned int\<close> arithmetic, and the store converts to
  \<open>unsigned short\<close>.
\<close>

definition kernel_main_prepare :: "addr \<Rightarrow> state \<Rightarrow> ValidatedBootInfo \<times> state" where
  "kernel_main_prepare bi s0 =
     (let s1 = store_w16 (index_w16 vga 0) 0x074F s0;
          s2 = store_w16 (index_w16 vga 1) 0x074B s1;
          s3 = store_w16 (index_w16 vga 2)
                 (ucast (0x0730 + (drop_bit 0 (multiboot_magic (heap_BootInfo s2 bi)) AND (0xF :: 32 word)))) s2;
          s4 = store_w16 (index_w16 vga 3)
                 (ucast (0x0730 + (drop_bit 4 (multiboot_magic (heap_BootInfo s3 bi)) AND (0xF :: 32 word)))) s3;
          (v, s5) = validate_boot_info bi s4
      in (\<lparr>input = bi, validity = v\<rparr>, s5))"

text \<open>
  \<open>kernel_main\<close> (lines 61 to 78): the preparation above, then the call
  \<open>rust_kernel_entry(&vbi)\<close> as the last statement. Whatever the next stage
  answers is the outcome of \<open>kernel_main\<close>.
\<close>

definition kernel_main :: "next_stage \<Rightarrow> addr \<Rightarrow> state \<Rightarrow> state option" where
  "kernel_main rust_kernel_entry bi s0 =
     (let (vbi, s) = kernel_main_prepare bi s0
      in rust_kernel_entry vbi (emit (CallRustKernelEntry vbi) s))"

text \<open>The state in which the next stage is entered, and the record it is entered with.\<close>

definition handoff_state :: "addr \<Rightarrow> state \<Rightarrow> state" where
  "handoff_state bi s0 =
     (let (vbi, s) = kernel_main_prepare bi s0 in emit (CallRustKernelEntry vbi) s)"

definition handoff_record :: "addr \<Rightarrow> state \<Rightarrow> ValidatedBootInfo" where
  "handoff_record bi s0 = fst (kernel_main_prepare bi s0)"

text \<open>
  The steps of lines 65 to 70 one by one: the state after the two stores of
  lines 65 and 66, the value that line 69 stores (it reads the magic number
  after those two stores) and the state after it, the value that line 70
  stores and the state after it, in which the validator is called.
\<close>

definition after_signature :: "state \<Rightarrow> state" where
  "after_signature s =
     store_w16 (index_w16 vga 1) 0x074B (store_w16 (index_w16 vga 0) 0x074F s)"

definition low_glyph :: "addr \<Rightarrow> state \<Rightarrow> 16 word" where
  "low_glyph bi s =
     ucast (0x0730 + (multiboot_magic (heap_BootInfo (after_signature s) bi) AND (0xF :: 32 word)))"

definition after_low_glyph :: "addr \<Rightarrow> state \<Rightarrow> state" where
  "after_low_glyph bi s = store_w16 (index_w16 vga 2) (low_glyph bi s) (after_signature s)"

definition high_glyph :: "addr \<Rightarrow> state \<Rightarrow> 16 word" where
  "high_glyph bi s =
     ucast (0x0730 +
       (drop_bit 4 (multiboot_magic (heap_BootInfo (after_low_glyph bi s) bi)) AND (0xF :: 32 word)))"

definition display_state :: "addr \<Rightarrow> state \<Rightarrow> state" where
  "display_state bi s = store_w16 (index_w16 vga 3) (high_glyph bi s) (after_low_glyph bi s)"

section \<open>The next stage\<close>

text \<open>
  Modelled from the spec: the next-stage entry point \<open>rust_kernel_entry\<close>,
  which \<open>main.c\<close> only declares (line 27) and whose code is not among the
  sources. The specification describes the handoff as a one-way, terminal
  control transfer with no return path: the call never returns.
\<close>

definition rust_kernel_entry :: next_stage where
  "rust_kernel_entry vbi s = None"

section \<open>Reading traces\<close>

fun is_call_rust_kernel_entry :: "event \<Rightarrow> bool" where
  "is_call_rust_kernel_entry (CallRustKernelEntry _) = True"
| "is_call_rust_kernel_entry _ = False"

fun is_store_w16 :: "event \<Rightarrow> bool" where
  "is_store_w16 (StoreW16 _ _) = True"
| "is_store_w16 _ = False"

text \<open>The stores to \<open>int\<close> objects in a trace, in order: address and value.\<close>

fun int_stores :: "event list \<Rightarrow> (addr \<times> 32 word) list" where
  "int_stores [] = []"
| "int_stores (StoreInt p v # es) = (p, v) # int_stores es"
| "int_stores (_ # es) = int_stores es"

text \<open>The stores to \<open>unsigned short\<close> objects in a trace, in order: address and value.\<close>

fun w16_stores :: "event list \<Rightarrow> (addr \<times> 16 word) list" where
  "w16_stores [] = []"
| "w16_stores (StoreW16 p v # es) = (p, v) # w16_stores es"
| "w16_stores (_ # es) = w16_stores es"

text \<open>The objects that the stores of a trace write to.\<close>

datatype location = W16Cell addr | IntCell addr

fun written :: "event list \<Rightarrow> location set" where
  "written [] = {}"
| "written (StoreW16 p _ # es) = insert (W16Cell p) (written es)"
| "written (StoreInt p _ # es) = insert (IntCell p) (written es)"
| "written (_ # es) = written es"

section \<open>Notions of the specification\<close>

text \<open>
  The specification speaks of an address being aligned to \<open>n\<close> bytes: \<open>n\<close>
  divides it. The code tests this with a mask.
\<close>

definition aligned_to :: "nat \<Rightarrow> 64 word \<Rightarrow> bool" where
  "aligned_to n w = (n dvd unat w)"

text \<open>
  A cell of the text buffer is a 16-bit value: the attribute byte is its high
  byte, the ASCII byte its low byte.
\<close>

definition cell_attribute :: "16 word \<Rightarrow> 8 word" where
  "cell_attribute c = ucast (drop_bit 8 c)"

definition cell_ascii :: "16 word \<Rightarrow> 8 word" where
  "cell_ascii c = ucast c"

text \<open>
  The glyphs of the hexadecimal digits, in ASCII: \<open>0\<close> to \<open>9\<close> (0x30 to 0x39),
  \<open>A\<close> to \<open>F\<close> (0x41 to 0x46) and \<open>a\<close> to \<open>f\<close> (0x61 to 0x66).
\<close>

definition is_hex_digit_glyph :: "8 word \<Rightarrow> bool" where
  "is_hex_digit_glyph c =
     ((0x30 \<le> c \<and> c \<le> 0x39) \<or> (0x41 \<le> c \<and> c \<le> 0x46) \<or> (0x61 \<le> c \<and> c \<le> 0x66))"

section \<open>Example inputs\<close>

text \<open>
  The first example descriptor of the specification: every check passes. The
  four fields that the validator does not read are given values of their own.
\<close>

definition example_descriptor :: BootInfo where
  "example_descriptor =
     \<lparr>multiboot_magic = 0x36d76289, multiboot_info = 0x10000, cpuid_edx = 0x0183FBFF,
      cpuid_ecx = 0x00000201, page_table_base = 0x1000, stack_top = 0x2000,
      framebuffer_addr = 0x4000, memory_map_addr = 0x5000, kernel_entry = 0x3000,
      boot_entry = 0x100000\<rparr>"

text \<open>The second example of the specification: the magic number \<open>0xDEADBEEF\<close>.\<close>

definition wrong_magic_descriptor :: BootInfo where
  "wrong_magic_descriptor = example_descriptor\<lparr>multiboot_magic := 0xDEADBEEF\<rparr>"

text \<open>The third example of the specification: the page-table base \<open>0x1001\<close>.\<close>

definition misaligned_descriptor :: BootInfo where
  "misaligned_descriptor = example_descriptor\<lparr>page_table_base := 0x1001\<rparr>"

text \<open>
  A descriptor that agrees with the first example on the six checked fields and
  differs from it on the four others.
\<close>

definition other_platform_descriptor :: BootInfo where
  "other_platform_descriptor =
     example_descriptor\<lparr>multiboot_info := 0, cpuid_edx := 0, cpuid_ecx := 0xFFFFFFFF,
       boot_entry := 0x200000\<rparr>"

text \<open>
  A descriptor whose magic number is wrong but has the low byte of the right one.
\<close>

definition same_low_byte_descriptor :: BootInfo where
  "same_low_byte_descriptor = example_descriptor\<lparr>multiboot_magic := 0xDEADBE89\<rparr>"

text \<open>The 64 bytes of a descriptor, as they lie in memory.\<close>

definition BootInfo_bytes :: "BootInfo \<Rightarrow> 8 word list" where
  "BootInfo_bytes b =
     le_bytes 4 (multiboot_magic b) @ le_bytes 4 (multiboot_info b)
     @ le_bytes 4 (cpuid_edx b) @ le_bytes 4 (cpuid_ecx b)
     @ le_bytes 8 (page_table_base b) @ le_bytes 8 (stack_top b)
     @ le_bytes 8 (framebuffer_addr b) @ le_bytes 8 (memory_map_addr b)
     @ le_bytes 8 (kernel_entry b) @ le_bytes 8 (boot_entry b)"

text \<open>
  A memory that holds descriptor \<open>b\<close> at address \<open>p\<close> and zero bytes elsewhere,
  with the diagnostic code at \<open>0x9000\<close> and an empty trace. The examples place
  the descriptor at \<open>0x7000\<close>, clear of the text buffer and of the diagnostic
  code; placed at \<open>0xB8000\<close> it lies in the text buffer.
\<close>

definition example_state_at :: "addr \<Rightarrow> BootInfo \<Rightarrow> state" where
  "example_state_at p b =
     \<lparr>mem = store_bytes (\<lambda>_. 0) p (BootInfo_bytes b), errno_location = 0x9000, trace = []\<rparr>"

definition example_state :: "BootInfo \<Rightarrow> state" where
  "example_state b = example_state_at 0x7000 b"

text \<open>
  The second example with the diagnostic code placed on the descriptor: the
  \<open>int\<close> that \<open>__errno_location\<close> points to is the magic number.
\<close>

definition errno_in_descriptor_state :: state where
  "errno_in_descriptor_state = (example_state wrong_magic_descriptor)\<lparr>errno_location := 0x7000\<rparr>"

section \<open>Bytes, ranges and memory\<close>

lemma length_le_bytes [simp]: "length (le_bytes n v) = n"
  by (induction n arbitrary: v) simp_all

lemma le_bytes_numeral:
  "le_bytes (numeral k) v = ucast v # le_bytes (pred_numeral k) (drop_bit 8 v)"
  by (simp add: numeral_eq_Suc)

lemma le_word_le_bytes_take: "le_word (le_bytes n v) = take_bit (8 * n) (v :: 'a::len word)"
proof (induction n arbitrary: v)
  case 0
  show ?case by simp
next
  case (Suc n)
  show ?case
    by (rule bit_word_eqI) (auto simp add: Suc bit_simps)
qed

lemma le_word_le_bytes: "LENGTH('a) \<le> 8 * n \<Longrightarrow> le_word (le_bytes n v) = (v :: 'a::len word)"
  by (simp add: le_word_le_bytes_take take_bit_word_eq_self)

lemma unat_self_offset: "j < 2 ^ 64 \<Longrightarrow> unat ((p :: addr) + of_nat j - p) = j"
  by (simp add: unat_of_nat)

lemma in_range_self: "j < n \<Longrightarrow> n \<le> 2 ^ 64 \<Longrightarrow> in_range (p + of_nat j) p n"
  by (simp add: in_range_def unat_of_nat)

lemma ranges_disjointD:
  assumes "ranges_disjoint p n q k" and "in_range a p n"
  shows "\<not> in_range a q k"
  using assms unfolding ranges_disjoint_def in_range_def
  by unat_arith

lemma ranges_disjoint_sym: "ranges_disjoint p n q k = ranges_disjoint q k p n"
  by (auto simp add: ranges_disjoint_def)

lemma in_range_sub:
  assumes "in_range a (q + of_nat off) k'" and "off + k' \<le> k" and "k \<le> 2 ^ 64"
  shows "in_range a q k"
proof -
  define x where "x = a - (q + of_nat off)"
  from assms have k': "unat x < k'" by (simp add: in_range_def x_def)
  with assms have "off < 2 ^ 64" by simp
  then have o: "unat (of_nat off :: addr) = off" by (simp add: unat_of_nat)
  have e: "a - q = x + of_nat off" by (simp add: x_def)
  have "unat (x + of_nat off) \<le> unat x + unat (of_nat off :: addr)"
    by (simp only: unat_word_ariths mod_less_eq_dividend)
  with k' o assms show ?thesis by (simp add: in_range_def e del: of_nat_add)
qed

lemma load_cong:
  "(\<And>j. off \<le> j \<Longrightarrow> j < off + n \<Longrightarrow> m' (p + of_nat j) = m (p + of_nat j)) \<Longrightarrow>
   load m' p off n = load m p off n"
  by (simp add: load_def del: of_nat_add)

lemma load_offset: "load m (p + of_nat k) off n = load m p (k + off) n"
  by (simp add: load_def add.assoc)

lemma store_bytes_outside: "\<not> in_range a q (length bs) \<Longrightarrow> store_bytes m q bs a = m a"
  by (simp add: store_bytes_def)

lemma load_store_same:
  assumes "off + n \<le> length bs" and "length bs \<le> 2 ^ 64"
  shows "load (store_bytes m p bs) p off n = take n (drop off bs)"
proof (rule nth_equalityI)
  show "length (load (store_bytes m p bs) p off n) = length (take n (drop off bs))"
    using assms by (simp add: load_def)
next
  fix i assume "i < length (load (store_bytes m p bs) p off n)"
  then have i: "i < n" by (simp add: load_def)
  with assms have b: "off + i < length bs" "off + i < 2 ^ 64" by simp_all
  then have u: "unat (p + of_nat (off + i) - p) = off + i" by (intro unat_self_offset)
  show "load (store_bytes m p bs) p off n ! i = take n (drop off bs) ! i"
    using i b u
    by (simp add: load_def store_bytes_def in_range_def del: of_nat_add add_diff_cancel_left')
qed

text \<open>A store into one region does not change what is read from a region disjoint from it.\<close>

lemma load_store_disjoint:
  assumes d: "ranges_disjoint P N Q K"
    and r: "off + n \<le> N" "N \<le> 2 ^ 64"
    and w: "qo + length bs \<le> K" "K \<le> 2 ^ 64"
  shows "load (store_bytes m (Q + of_nat qo) bs) P off n = load m P off n"
proof (rule load_cong)
  fix j assume "off \<le> j" "j < off + n"
  with r have "in_range (P + of_nat j) P N" by (intro in_range_self) simp_all
  with d have "\<not> in_range (P + of_nat j) Q K" by (rule ranges_disjointD)
  with w have "\<not> in_range (P + of_nat j) (Q + of_nat qo) (length bs)"
    using in_range_sub by blast
  then show "store_bytes m (Q + of_nat qo) bs (P + of_nat j) = m (P + of_nat j)"
    by (rule store_bytes_outside)
qed

section \<open>Reading and writing objects\<close>

lemma emit_sel [simp]:
  "mem (emit e s) = mem s"
  "errno_location (emit e s) = errno_location s"
  "trace (emit e s) = trace s @ [e]"
  "heap_BootInfo (emit e s) = heap_BootInfo s"
  "heap_int (emit e s) = heap_int s"
  "heap_w16 (emit e s) = heap_w16 s"
  by (simp_all add: emit_def fun_eq_iff heap_BootInfo_def heap_int_def heap_w16_def)

lemma store_w16_sel [simp]:
  "mem (store_w16 p v s) = store_bytes (mem s) p (le_bytes 2 v)"
  "errno_location (store_w16 p v s) = errno_location s"
  "trace (store_w16 p v s) = trace s @ [StoreW16 p v]"
  by (simp_all add: store_w16_def)

lemma store_int_sel [simp]:
  "mem (store_int p v s) = store_bytes (mem s) p (le_bytes 4 v)"
  "errno_location (store_int p v s) = errno_location s"
  "trace (store_int p v s) = trace s @ [StoreInt p v]"
  by (simp_all add: store_int_def)

lemma heap_int_store_int [simp]: "heap_int (store_int p v s) p = v"
  by (simp add: heap_int_def load_store_same le_word_le_bytes)

lemma heap_w16_store_w16 [simp]: "heap_w16 (store_w16 p v s) p = v"
  by (simp add: heap_w16_def load_store_same le_word_le_bytes)

lemma index_w16_offset: "index_w16 p i = p + of_nat (2 * i)"
  by (simp add: index_w16_def)

text \<open>Stores that leave an object as it is.\<close>

lemma heap_BootInfo_frame:
  assumes "ranges_disjoint bi 64 Q K" and "qo + length bs \<le> K" and "K \<le> 2 ^ 64"
    and "mem s' = store_bytes (mem s) (Q + of_nat qo) bs"
  shows "heap_BootInfo s' bi = heap_BootInfo s bi"
  using assms by (simp add: heap_BootInfo_def load_store_disjoint [of bi 64 Q K])

lemma heap_BootInfo_store_cell:
  "ranges_disjoint bi 64 vga 8 \<Longrightarrow> i < 4 \<Longrightarrow>
   heap_BootInfo (store_w16 (index_w16 vga i) v s) bi = heap_BootInfo s bi"
  by (rule heap_BootInfo_frame [of bi vga 8 "2 * i" "le_bytes 2 v"])
     (simp_all add: index_w16_offset)

lemma heap_BootInfo_store_int:
  "ranges_disjoint bi 64 e 4 \<Longrightarrow> heap_BootInfo (store_int e v s) bi = heap_BootInfo s bi"
  by (rule heap_BootInfo_frame [of bi e 4 0 "le_bytes 4 v"]) simp_all

lemma heap_int_store_cell:
  assumes "ranges_disjoint vga 8 e 4" and "i < 4"
  shows "heap_int (store_w16 (index_w16 vga i) v s) e = heap_int s e"
proof -
  from assms have "ranges_disjoint e 4 vga 8" by (simp add: ranges_disjoint_sym)
  with assms load_store_disjoint [of e 4 vga 8 0 4 "2 * i" "le_bytes 2 v" "mem s"]
  show ?thesis
    by (simp add: heap_int_def index_w16_offset del: of_nat_mult of_nat_add)
qed

lemma heap_w16_store_int:
  assumes "ranges_disjoint vga 8 e 4" and "i < 4"
  shows "heap_w16 (store_int e v s) (index_w16 vga i) = heap_w16 s (index_w16 vga i)"
  using assms load_store_disjoint [of vga 8 e 4 "2 * i" 2 0 "le_bytes 4 v" "mem s"]
  by (simp add: heap_w16_def index_w16_offset load_offset del: of_nat_mult of_nat_add)

lemma heap_w16_store_other:
  assumes "ranges_disjoint p 2 q 2"
  shows "heap_w16 (store_w16 q v s) p = heap_w16 s p"
  using assms load_store_disjoint [of p 2 q 2 0 2 0 "le_bytes 2 v" "mem s"]
  by (simp add: heap_w16_def)

lemma cells_disjoint:
  "ranges_disjoint (index_w16 vga 0) 2 (index_w16 vga 1) 2"
  "ranges_disjoint (index_w16 vga 0) 2 (index_w16 vga 2) 2"
  "ranges_disjoint (index_w16 vga 0) 2 (index_w16 vga 3) 2"
  "ranges_disjoint (index_w16 vga 1) 2 (index_w16 vga 2) 2"
  "ranges_disjoint (index_w16 vga 1) 2 (index_w16 vga 3) 2"
  "ranges_disjoint (index_w16 vga 2) 2 (index_w16 vga 3) 2"
  "ranges_disjoint (index_w16 vga 0) 2 (index_w16 vga (Suc 0)) 2"
  "ranges_disjoint (index_w16 vga (Suc 0)) 2 (index_w16 vga 2) 2"
  "ranges_disjoint (index_w16 vga (Suc 0)) 2 (index_w16 vga 3) 2"
  by (simp_all add: index_w16_def vga_def ranges_disjoint_def)

lemma mem_store_cell:
  assumes "\<not> in_range a vga 8" and "i < 4"
  shows "mem (store_w16 (index_w16 vga i) v s) a = mem s a"
proof -
  from assms have "\<not> in_range a (vga + of_nat (2 * i)) (length (le_bytes 2 v))"
    using in_range_sub [of a vga "2 * i" 2 8] by auto
  then show ?thesis by (simp add: index_w16_offset store_bytes_outside del: of_nat_mult)
qed

lemma mem_store_int:
  "\<not> in_range a e 4 \<Longrightarrow> mem (store_int e v s) a = mem s a"
  by (simp add: store_bytes_outside)

lemma after_signature_sel [simp]:
  "errno_location (after_signature s) = errno_location s"
  "trace (after_signature s) = trace s @
     [StoreW16 (index_w16 vga 0) 0x074F, StoreW16 (index_w16 vga 1) 0x074B]"
  by (simp_all add: after_signature_def)

lemma after_low_glyph_sel [simp]:
  "errno_location (after_low_glyph bi s) = errno_location s"
  "trace (after_low_glyph bi s) = trace s @
     [StoreW16 (index_w16 vga 0) 0x074F, StoreW16 (index_w16 vga 1) 0x074B,
      StoreW16 (index_w16 vga 2) (low_glyph bi s)]"
  by (simp_all add: after_low_glyph_def)

lemma display_state_sel [simp]:
  "errno_location (display_state bi s) = errno_location s"
  "trace (display_state bi s) = trace s @
     [StoreW16 (index_w16 vga 0) 0x074F, StoreW16 (index_w16 vga 1) 0x074B,
      StoreW16 (index_w16 vga 2) (low_glyph bi s), StoreW16 (index_w16 vga 3) (high_glyph bi s)]"
  by (simp_all add: display_state_def)

lemma display_state_cells:
  "heap_w16 (display_state bi s) (index_w16 vga 0) = 0x074F"
  "heap_w16 (display_state bi s) (index_w16 vga 1) = 0x074B"
  "heap_w16 (display_state bi s) (index_w16 vga 2) = low_glyph bi s"
  "heap_w16 (display_state bi s) (index_w16 vga 3) = high_glyph bi s"
  "heap_w16 (display_state bi s) (index_w16 vga (Suc 0)) = 0x074B"
  by (simp_all add: display_state_def after_low_glyph_def after_signature_def
        heap_w16_store_other cells_disjoint)

lemma display_state_mem:
  "\<not> in_range a vga 8 \<Longrightarrow> mem (display_state bi s) a = mem s a"
  by (simp add: display_state_def after_low_glyph_def after_signature_def mem_store_cell
        del: store_w16_sel)

lemma display_state_int:
  "ranges_disjoint vga 8 e 4 \<Longrightarrow> heap_int (display_state bi s) e = heap_int s e"
  by (simp add: display_state_def after_low_glyph_def after_signature_def heap_int_store_cell)

lemma descriptor_clear:
  assumes "ranges_disjoint bi 64 vga 8"
  shows "heap_BootInfo (after_signature s) bi = heap_BootInfo s bi"
    and "heap_BootInfo (after_low_glyph bi s) bi = heap_BootInfo s bi"
    and "heap_BootInfo (display_state bi s) bi = heap_BootInfo s bi"
  using assms
  by (simp_all add: display_state_def after_low_glyph_def after_signature_def
        heap_BootInfo_store_cell)

lemma kernel_main_prepare_eq:
  "kernel_main_prepare bi s =
     (\<lparr>input = bi, validity = fst (validate_boot_info bi (display_state bi s))\<rparr>,
      snd (validate_boot_info bi (display_state bi s)))"
  by (simp add: kernel_main_prepare_def display_state_def high_glyph_def after_low_glyph_def
        low_glyph_def after_signature_def Let_def split_beta)

section \<open>The validator and the entry shim, step by step\<close>

lemma and_0xFFF_aligned: "((w :: 64 word) AND 0xFFF = 0) = aligned_to 4096 w"
  using and_mask_dvd_nat [of 12 w] by (simp add: aligned_to_def mask_eq_exp_minus_1)

lemma and_0xF_aligned: "((w :: 64 word) AND 0xF = 0) = aligned_to 16 w"
  using and_mask_dvd_nat [of 4 w] by (simp add: aligned_to_def mask_eq_exp_minus_1)

lemma validate_magic_mismatch:
  "multiboot_magic (heap_BootInfo s bi) \<noteq> 0x36d76289 \<Longrightarrow>
   validate_boot_info bi s = (False, store_int (errno_location s) 7 (emit CallErrnoLocation s))"
  by (simp add: validate_boot_info_def call_errno_location_def Let_def)

lemma validate_structural:
  "multiboot_magic (heap_BootInfo s bi) = 0x36d76289 \<Longrightarrow>
   page_table_base (heap_BootInfo s bi) = 0 \<or> \<not> aligned_to 4096 (page_table_base (heap_BootInfo s bi))
   \<or> stack_top (heap_BootInfo s bi) = 0 \<or> \<not> aligned_to 16 (stack_top (heap_BootInfo s bi))
   \<or> kernel_entry (heap_BootInfo s bi) = 0 \<or> framebuffer_addr (heap_BootInfo s bi) = 0
   \<or> memory_map_addr (heap_BootInfo s bi) = 0 \<Longrightarrow>
   validate_boot_info bi s = (False, store_int (errno_location s) 2 (emit CallErrnoLocation s))"
  by (auto simp add: validate_boot_info_def call_errno_location_def Let_def
        and_0xFFF_aligned and_0xF_aligned)

lemma validate_pass:
  "multiboot_magic (heap_BootInfo s bi) = 0x36d76289 \<Longrightarrow>
   page_table_base (heap_BootInfo s bi) \<noteq> 0 \<Longrightarrow>
   aligned_to 4096 (page_table_base (heap_BootInfo s bi)) \<Longrightarrow>
   stack_top (heap_BootInfo s bi) \<noteq> 0 \<Longrightarrow>
   aligned_to 16 (stack_top (heap_BootInfo s bi)) \<Longrightarrow>
   kernel_entry (heap_BootInfo s bi) \<noteq> 0 \<Longrightarrow>
   framebuffer_addr (heap_BootInfo s bi) \<noteq> 0 \<Longrightarrow>
   memory_map_addr (heap_BootInfo s bi) \<noteq> 0 \<Longrightarrow>
   validate_boot_info bi s = (True, emit CallErrnoLocation s)"
  by (simp add: validate_boot_info_def call_errno_location_def Let_def
        and_0xFFF_aligned and_0xF_aligned)

lemma validate_cases:
  "validate_boot_info bi s = (False, store_int (errno_location s) 7 (emit CallErrnoLocation s))
     \<and> multiboot_magic (heap_BootInfo s bi) \<noteq> 0x36d76289
   \<or> validate_boot_info bi s = (False, store_int (errno_location s) 2 (emit CallErrnoLocation s))
     \<and> multiboot_magic (heap_BootInfo s bi) = 0x36d76289
     \<and> (page_table_base (heap_BootInfo s bi) = 0
       \<or> \<not> aligned_to 4096 (page_table_base (heap_BootInfo s bi))
       \<or> stack_top (heap_BootInfo s bi) = 0
       \<or> \<not> aligned_to 16 (stack_top (heap_BootInfo s bi))
       \<or> kernel_entry (heap_BootInfo s bi) = 0
       \<or> framebuffer_addr (heap_BootInfo s bi) = 0
       \<or> memory_map_addr (heap_BootInfo s bi) = 0)
   \<or> validate_boot_info bi s = (True, emit CallErrnoLocation s)
     \<and> multiboot_magic (heap_BootInfo s bi) = 0x36d76289
     \<and> \<not> (page_table_base (heap_BootInfo s bi) = 0
       \<or> \<not> aligned_to 4096 (page_table_base (heap_BootInfo s bi))
       \<or> stack_top (heap_BootInfo s bi) = 0
       \<or> \<not> aligned_to 16 (stack_top (heap_BootInfo s bi))
       \<or> kernel_entry (heap_BootInfo s bi) = 0
       \<or> framebuffer_addr (heap_BootInfo s bi) = 0
       \<or> memory_map_addr (heap_BootInfo s bi) = 0)"
  using validate_magic_mismatch [of s bi] validate_structural [of s bi] validate_pass [of s bi]
  by blast

lemma validate_verdict:
  "fst (validate_boot_info bi s) =
     (multiboot_magic (heap_BootInfo s bi) = 0x36d76289
      \<and> page_table_base (heap_BootInfo s bi) \<noteq> 0
      \<and> aligned_to 4096 (page_table_base (heap_BootInfo s bi))
      \<and> stack_top (heap_BootInfo s bi) \<noteq> 0
      \<and> aligned_to 16 (stack_top (heap_BootInfo s bi))
      \<and> kernel_entry (heap_BootInfo s bi) \<noteq> 0
      \<and> framebuffer_addr (heap_BootInfo s bi) \<noteq> 0
      \<and> memory_map_addr (heap_BootInfo s bi) \<noteq> 0)"
  using validate_cases [of bi s] by (elim disjE conjE; simp)

lemma verdict_frame:
  "heap_BootInfo s' bi = heap_BootInfo s bi \<Longrightarrow>
   fst (validate_boot_info bi s') = fst (validate_boot_info bi s)"
  by (simp add: validate_verdict)

lemma validate_emitted:
  "emitted s (snd (validate_boot_info bi s)) =
     (if multiboot_magic (heap_BootInfo s bi) \<noteq> 0x36d76289
      then [CallErrnoLocation, StoreInt (errno_location s) 7]
      else if fst (validate_boot_info bi s) then [CallErrnoLocation]
      else [CallErrnoLocation, StoreInt (errno_location s) 2])"
  using validate_cases [of bi s]
  by (elim disjE conjE) (simp_all add: emitted_def)

lemma validate_trace:
  "trace (snd (validate_boot_info bi s)) = trace s @ emitted s (snd (validate_boot_info bi s))"
  using validate_cases [of bi s]
  by (elim disjE conjE) (simp_all add: emitted_def)

lemma validate_errno_location [simp]:
  "errno_location (snd (validate_boot_info bi s)) = errno_location s"
  using validate_cases [of bi s] by (elim disjE conjE; simp)

lemma validate_errno:
  "errno (snd (validate_boot_info bi s)) =
     (if multiboot_magic (heap_BootInfo s bi) \<noteq> 0x36d76289 then 7
      else if fst (validate_boot_info bi s) then errno s else 2)"
  using validate_cases [of bi s] by (elim disjE conjE) (simp_all add: errno_def)

lemma validate_mem:
  "\<not> in_range a (errno_location s) 4 \<Longrightarrow> mem (snd (validate_boot_info bi s)) a = mem s a"
  using validate_cases [of bi s] by (elim disjE conjE) (simp_all add: store_bytes_outside)

lemma validate_mem_pass:
  "fst (validate_boot_info bi s) \<Longrightarrow> mem (snd (validate_boot_info bi s)) = mem s"
  using validate_cases [of bi s] by (elim disjE conjE) simp_all

lemma validate_descriptor:
  "ranges_disjoint bi 64 (errno_location s) 4 \<Longrightarrow>
   heap_BootInfo (snd (validate_boot_info bi' s)) bi = heap_BootInfo s bi"
  using validate_cases [of bi' s]
  by (elim disjE conjE) (simp_all add: heap_BootInfo_store_int)

lemma validate_cell:
  "ranges_disjoint vga 8 (errno_location s) 4 \<Longrightarrow> i < 4 \<Longrightarrow>
   heap_w16 (snd (validate_boot_info bi s)) (index_w16 vga i) = heap_w16 s (index_w16 vga i)"
  using validate_cases [of bi s]
  by (elim disjE conjE) (simp_all add: heap_w16_store_int)

lemma kernel_main_eq:
  "kernel_main R bi s = R (handoff_record bi s) (handoff_state bi s)"
  by (simp add: kernel_main_def handoff_record_def handoff_state_def split_beta)

lemma handoff_record_eq:
  "handoff_record bi s =
     \<lparr>input = bi, validity = fst (validate_boot_info bi (display_state bi s))\<rparr>"
  by (simp add: handoff_record_def kernel_main_prepare_eq)

lemma handoff_state_eq:
  "handoff_state bi s =
     emit (CallRustKernelEntry
         \<lparr>input = bi, validity = fst (validate_boot_info bi (display_state bi s))\<rparr>)
       (snd (validate_boot_info bi (display_state bi s)))"
  by (simp add: handoff_state_def kernel_main_prepare_eq)

lemma handoff_emitted:
  "emitted s (handoff_state bi s) =
     [StoreW16 (index_w16 vga 0) 0x074F, StoreW16 (index_w16 vga 1) 0x074B,
      StoreW16 (index_w16 vga 2) (low_glyph bi s), StoreW16 (index_w16 vga 3) (high_glyph bi s)]
     @ emitted (display_state bi s) (snd (validate_boot_info bi (display_state bi s)))
     @ [CallRustKernelEntry
         \<lparr>input = bi, validity = fst (validate_boot_info bi (display_state bi s))\<rparr>]"
proof -
  have t: "trace (handoff_state bi s) = trace s @
     ([StoreW16 (index_w16 vga 0) 0x074F, StoreW16 (index_w16 vga 1) 0x074B,
       StoreW16 (index_w16 vga 2) (low_glyph bi s), StoreW16 (index_w16 vga 3) (high_glyph bi s)]
      @ emitted (display_state bi s) (snd (validate_boot_info bi (display_state bi s)))
      @ [CallRustKernelEntry
          \<lparr>input = bi, validity = fst (validate_boot_info bi (display_state bi s))\<rparr>])"
    by (simp add: handoff_state_eq validate_trace [of bi "display_state bi s"])
  show ?thesis
    unfolding emitted_def [of s "handoff_state bi s"] t by simp
qed

lemma handoff_sel [simp]:
  "errno_location (handoff_state bi s) = errno_location s"
  "mem (handoff_state bi s) = mem (snd (validate_boot_info bi (display_state bi s)))"
  "heap_BootInfo (handoff_state bi s) = heap_BootInfo (snd (validate_boot_info bi (display_state bi s)))"
  "heap_w16 (handoff_state bi s) = heap_w16 (snd (validate_boot_info bi (display_state bi s)))"
  "heap_int (handoff_state bi s) = heap_int (snd (validate_boot_info bi (display_state bi s)))"
  by (simp_all add: handoff_state_eq)

lemma handoff_errno:
  "errno (handoff_state bi s) = errno (snd (validate_boot_info bi (display_state bi s)))"
  by (simp add: errno_def)

lemma handoff_cells:
  assumes "ranges_disjoint vga 8 (errno_location s) 4"
  shows "heap_w16 (handoff_state bi s) (index_w16 vga 0) = 0x074F"
    and "heap_w16 (handoff_state bi s) (index_w16 vga 1) = 0x074B"
    and "heap_w16 (handoff_state bi s) (index_w16 vga 2) = low_glyph bi s"
    and "heap_w16 (handoff_state bi s) (index_w16 vga 3) = high_glyph bi s"
  using assms validate_cell [of "display_state bi s" 0 bi]
    validate_cell [of "display_state bi s" 1 bi] validate_cell [of "display_state bi s" 2 bi]
    validate_cell [of "display_state bi s" 3 bi]
  by (simp_all add: display_state_cells)

lemma handoff_mem:
  "\<not> in_range a vga 8 \<Longrightarrow> \<not> in_range a (errno_location s) 4 \<Longrightarrow>
   mem (handoff_state bi s) a = mem s a"
  by (simp add: validate_mem display_state_mem)

lemma handoff_descriptor:
  "ranges_disjoint bi 64 vga 8 \<Longrightarrow> ranges_disjoint bi 64 (errno_location s) 4 \<Longrightarrow>
   heap_BootInfo (handoff_state bi s) bi = heap_BootInfo s bi"
  by (simp add: validate_descriptor descriptor_clear)

section \<open>The examples\<close>

lemma upt_4: "[0..<4] = [0, 1, 2, 3 :: nat]" by code_simp

lemma length_BootInfo_bytes [simp]: "length (BootInfo_bytes b) = 64"
  by (simp add: BootInfo_bytes_def)

lemma example_state_at_sel [simp]:
  "errno_location (example_state_at p b) = 0x9000"
  "trace (example_state_at p b) = []"
  "mem (example_state_at p b) = store_bytes (\<lambda>_. 0) p (BootInfo_bytes b)"
  by (simp_all add: example_state_at_def)

lemma example_descriptor_at [simp]: "heap_BootInfo (example_state_at p b) p = b"
  by (cases b) (simp add: heap_BootInfo_def load_store_same BootInfo_bytes_def le_word_le_bytes)

lemma example_state_sel [simp]:
  "errno_location (example_state b) = 0x9000"
  "trace (example_state b) = []"
  "heap_BootInfo (example_state b) 0x7000 = b"
  by (simp_all add: example_state_def)

lemma example_errno [simp]: "errno (example_state b) = 0"
  using load_store_disjoint [of "0x9000" 4 "0x7000" 64 0 4 0 "BootInfo_bytes b" "\<lambda>_. 0"]
  by (simp add: errno_def heap_int_def example_state_def ranges_disjoint_def load_def upt_4)

lemma example_clear:
  "ranges_disjoint 0x7000 64 vga 8"
  "ranges_disjoint 0x8000 64 vga 8"
  "ranges_disjoint 0x7000 64 0x9000 4"
  "ranges_disjoint vga 8 0x9000 4"
  "ranges_disjoint vga 64 0x9000 4"
  by (simp_all add: ranges_disjoint_def vga_def)

lemma signature_bytes:
  "load (mem (after_signature s)) vga 0 4 = [0x4F, 0x07, 0x4B, 0x07]"
  "load (mem (after_low_glyph bi s)) vga 0 4 = [0x4F, 0x07, 0x4B, 0x07]"
  "load (mem (display_state bi s)) vga 0 4 = [0x4F, 0x07, 0x4B, 0x07]"
  by (simp_all add: display_state_def after_low_glyph_def after_signature_def load_def upt_4
        store_bytes_def in_range_def index_w16_def vga_def le_bytes_numeral
        unsigned_minus_1_eq_mask mask_eq_exp_minus_1)

lemma magic_in_text_buffer:
  "multiboot_magic (heap_BootInfo (after_signature s) vga) = 0x074B074F"
  "multiboot_magic (heap_BootInfo (after_low_glyph bi s) vga) = 0x074B074F"
  "multiboot_magic (heap_BootInfo (display_state bi s) vga) = 0x074B074F"
  by (simp_all add: heap_BootInfo_def signature_bytes)

lemma glyphs_in_text_buffer:
  "low_glyph vga s = 0x073F" "high_glyph vga s = 0x0734"
  by (simp_all add: low_glyph_def high_glyph_def magic_in_text_buffer)

lemma errno_in_descriptor_state_sel [simp]:
  "errno_location errno_in_descriptor_state = 0x7000"
  "heap_BootInfo errno_in_descriptor_state 0x7000 = wrong_magic_descriptor"
  using example_state_sel(3) [of wrong_magic_descriptor]
  by (simp_all add: errno_in_descriptor_state_def heap_BootInfo_def)

lemma magic_is_int: "multiboot_magic (heap_BootInfo s p) = heap_int s p"
  by (simp add: heap_BootInfo_def heap_int_def)

text \<open>Nibbles and glyphs.\<close>

lemma nibble_cases:
  fixes m :: "32 word"
  shows "m AND 0xF \<in> {0, 1, 2, 3, 4, 5, 6, 7, 8, 9, 10, 11, 12, 13, 14, 15}"
proof -
  have "m AND 0xF \<le> 0xF" by (rule word_and_le1)
  then have "unat (m AND 0xF) \<le> 15" by (simp add: word_le_nat_alt)
  then have "unat (m AND 0xF) \<in> {0, 1, 2, 3, 4, 5, 6, 7, 8, 9, 10, 11, 12, 13, 14, 15}"
    by (auto simp: le_Suc_eq numeral_eq_Suc)
  then have "word_of_nat (unat (m AND 0xF)) \<in>
      (word_of_nat ` {0, 1, 2, 3, 4, 5, 6, 7, 8, 9, 10, 11, 12, 13, 14, 15} :: 32 word set)"
    by (rule imageI)
  then show ?thesis by simp
qed

lemma glyph_cell:
  fixes m :: "32 word"
  shows "cell_attribute (ucast (0x0730 + (m AND 0xF))) = 0x07"
    and "cell_ascii (ucast (0x0730 + (m AND 0xF))) = 0x30 + ucast (m AND 0xF)"
    and "is_hex_digit_glyph (cell_ascii (ucast (0x0730 + (m AND 0xF)))) = (m AND 0xF \<le> 9)"
  using nibble_cases [of m]
  by (auto simp add: cell_attribute_def cell_ascii_def is_hex_digit_glyph_def)

lemma fixed_cell:
  "cell_attribute 0x074F = 0x07" "cell_attribute 0x074B = 0x07"
  "cell_ascii 0x074F = 0x4F" "cell_ascii 0x074B = 0x4B"
  by (simp_all add: cell_attribute_def cell_ascii_def)

lemma low_byte_nibbles:
  fixes m n :: "32 word"
  assumes "m AND 0xFF = n AND 0xFF"
  shows "m AND 0xF = n AND 0xF" and "drop_bit 4 m AND 0xF = drop_bit 4 n AND 0xF"
proof -
  have c: "(0xFF :: 32 word) AND 0xF = 0xF" by simp
  have a: "x AND 0xF = (x AND 0xFF) AND 0xF" for x :: "32 word"
    using c by (metis and.assoc)
  have d: "drop_bit 4 (0xFF :: 32 word) = 0xF" by simp
  have b: "drop_bit 4 x AND 0xF = drop_bit 4 (x AND 0xFF) AND 0xF" for x :: "32 word"
  proof -
    from d have "drop_bit 4 (x AND 0xFF) = drop_bit 4 x AND 0xF" by (simp only: drop_bit_and)
    then show ?thesis by (simp only: and.assoc and.idem)
  qed
  show "m AND 0xF = n AND 0xF" using a [of m] a [of n] assms by (simp only:)
  show "drop_bit 4 m AND 0xF = drop_bit 4 n AND 0xF" using b [of m] b [of n] assms by (simp only:)
qed

text \<open>The verdicts of the examples.\<close>

lemma example_verdicts:
  "fst (validate_boot_info 0x7000 (example_state example_descriptor)) = True"
  "fst (validate_boot_info 0x7000 (example_state other_platform_descriptor)) = True"
  "fst (validate_boot_info 0x7000 (example_state wrong_magic_descriptor)) = False"
  "fst (validate_boot_info 0x7000 (example_state misaligned_descriptor)) = False"
  "fst (validate_boot_info 0x7000 (example_state same_low_byte_descriptor)) = False"
  "fst (validate_boot_info 0x8000 (example_state_at 0x8000 other_platform_descriptor)) = True"
  "fst (validate_boot_info 0x8000 (example_state_at 0x8000 same_low_byte_descriptor)) = False"
  by (simp_all add: validate_verdict example_descriptor_def other_platform_descriptor_def
        wrong_magic_descriptor_def misaligned_descriptor_def same_low_byte_descriptor_def
        aligned_to_def)

lemma example_display_verdicts:
  "fst (validate_boot_info 0x7000 (display_state 0x7000 (example_state b))) =
     fst (validate_boot_info 0x7000 (example_state b))"
  "fst (validate_boot_info 0x8000 (display_state 0x8000 (example_state_at 0x8000 b))) =
     fst (validate_boot_info 0x8000 (example_state_at 0x8000 b))"
  by (rule verdict_frame, rule descriptor_clear, rule example_clear)+

section \<open>The validator's verdicts\<close>

text \<open>
  Claim C1. Whenever the magic number of the descriptor differs from
  \<open>0x36d76289\<close>, \<open>validate_boot_info\<close> returns false and the diagnostic code
  is 7 afterwards, whatever the other fields hold; the only store of the call is
  that of the 7.
\<close>

theorem validate_wrong_magic:
  assumes "multiboot_magic (heap_BootInfo s bi) \<noteq> 0x36d76289"
  shows "fst (validate_boot_info bi s) = False
     \<and> errno (snd (validate_boot_info bi s)) = 7
     \<and> emitted s (snd (validate_boot_info bi s)) =
         [CallErrnoLocation, StoreInt (errno_location s) 7]"
  by (simp add: validate_magic_mismatch [OF assms] errno_def emitted_def)

theorem validate_wrong_magic_witness:
  "multiboot_magic (heap_BootInfo
       (example_state wrong_magic_descriptor) 0x7000) \<noteq> 0x36d76289
   \<and> fst (validate_boot_info 0x7000
         (example_state wrong_magic_descriptor)) = False
   \<and> errno (snd (validate_boot_info 0x7000
         (example_state wrong_magic_descriptor))) = 7"
proof -
  have h: "multiboot_magic (heap_BootInfo
       (example_state wrong_magic_descriptor) 0x7000) \<noteq> 0x36d76289"
    by (simp add: wrong_magic_descriptor_def)
  from validate_wrong_magic [OF h] h show ?thesis by blast
qed

text \<open>
  Claim C2. With the right magic number, as soon as one of the five structural
  checks fails (page-table base zero or not aligned to 4096, stack top zero or
  not aligned to 16, kernel entry, framebuffer or memory-map address zero),
  \<open>validate_boot_info\<close> returns false and the diagnostic code is 2 afterwards.
  The first failing check ends the call: exactly one store happens, however
  many checks would fail.
\<close>

theorem validate_structural_violation:
  assumes "multiboot_magic (heap_BootInfo s bi) = 0x36d76289"
    and "page_table_base (heap_BootInfo s bi) = 0
       \<or> \<not> aligned_to 4096 (page_table_base (heap_BootInfo s bi))
       \<or> stack_top (heap_BootInfo s bi) = 0
       \<or> \<not> aligned_to 16 (stack_top (heap_BootInfo s bi))
       \<or> kernel_entry (heap_BootInfo s bi) = 0
       \<or> framebuffer_addr (heap_BootInfo s bi) = 0
       \<or> memory_map_addr (heap_BootInfo s bi) = 0"
  shows "fst (validate_boot_info bi s) = False
     \<and> errno (snd (validate_boot_info bi s)) = 2
     \<and> emitted s (snd (validate_boot_info bi s)) =
         [CallErrnoLocation, StoreInt (errno_location s) 2]"
  by (simp add: validate_structural [OF assms] errno_def emitted_def)

theorem validate_structural_violation_witness:
  "multiboot_magic (heap_BootInfo
       (example_state misaligned_descriptor) 0x7000) = 0x36d76289
   \<and> \<not> aligned_to 4096 (page_table_base (heap_BootInfo
       (example_state misaligned_descriptor) 0x7000))
   \<and> fst (validate_boot_info 0x7000
         (example_state misaligned_descriptor)) = False
   \<and> errno (snd (validate_boot_info 0x7000
         (example_state misaligned_descriptor))) = 2"
proof -
  have m: "multiboot_magic (heap_BootInfo
       (example_state misaligned_descriptor) 0x7000) = 0x36d76289"
    by (simp add: misaligned_descriptor_def example_descriptor_def)
  have a: "\<not> aligned_to 4096 (page_table_base (heap_BootInfo
       (example_state misaligned_descriptor) 0x7000))"
    by (simp add: misaligned_descriptor_def aligned_to_def)
  from validate_structural_violation [OF m] a m show ?thesis by blast
qed

text \<open>
  Claim C3. When all six checks pass, \<open>validate_boot_info\<close> returns true and
  does not write the diagnostic code: no store happens, the memory of the
  \<open>int\<close> cells is the one before the call, and so is the diagnostic code.
\<close>

theorem validate_all_checks_pass:
  assumes "multiboot_magic (heap_BootInfo s bi) = 0x36d76289"
    and "page_table_base (heap_BootInfo s bi) \<noteq> 0"
    and "aligned_to 4096 (page_table_base (heap_BootInfo s bi))"
    and "stack_top (heap_BootInfo s bi) \<noteq> 0"
    and "aligned_to 16 (stack_top (heap_BootInfo s bi))"
    and "kernel_entry (heap_BootInfo s bi) \<noteq> 0"
    and "framebuffer_addr (heap_BootInfo s bi) \<noteq> 0"
    and "memory_map_addr (heap_BootInfo s bi) \<noteq> 0"
  shows "fst (validate_boot_info bi s) = True
     \<and> emitted s (snd (validate_boot_info bi s)) = [CallErrnoLocation]
     \<and> heap_int (snd (validate_boot_info bi s)) = heap_int s
     \<and> errno (snd (validate_boot_info bi s)) = errno s"
  by (simp add: validate_pass [OF assms] errno_def emitted_def)

theorem validate_all_checks_pass_witness:
  "multiboot_magic (heap_BootInfo (example_state example_descriptor) 0x7000) = 0x36d76289
   \<and> page_table_base (heap_BootInfo (example_state example_descriptor) 0x7000) \<noteq> 0
   \<and> aligned_to 4096 (page_table_base (heap_BootInfo (example_state example_descriptor) 0x7000))
   \<and> stack_top (heap_BootInfo (example_state example_descriptor) 0x7000) \<noteq> 0
   \<and> aligned_to 16 (stack_top (heap_BootInfo (example_state example_descriptor) 0x7000))
   \<and> kernel_entry (heap_BootInfo (example_state example_descriptor) 0x7000) \<noteq> 0
   \<and> framebuffer_addr (heap_BootInfo (example_state example_descriptor) 0x7000) \<noteq> 0
   \<and> memory_map_addr (heap_BootInfo (example_state example_descriptor) 0x7000) \<noteq> 0
   \<and> fst (validate_boot_info 0x7000 (example_state example_descriptor)) = True
   \<and> errno (snd (validate_boot_info 0x7000 (example_state example_descriptor))) = 0"
proof -
  have h1: "multiboot_magic (heap_BootInfo (example_state example_descriptor) 0x7000) = 0x36d76289"
    by (simp add: example_descriptor_def)
  have h2: "page_table_base (heap_BootInfo (example_state example_descriptor) 0x7000) \<noteq> 0"
    by (simp add: example_descriptor_def)
  have h3: "aligned_to 4096 (page_table_base (heap_BootInfo (example_state example_descriptor) 0x7000))"
    by (simp add: example_descriptor_def aligned_to_def)
  have h4: "stack_top (heap_BootInfo (example_state example_descriptor) 0x7000) \<noteq> 0"
    by (simp add: example_descriptor_def)
  have h5: "aligned_to 16 (stack_top (heap_BootInfo (example_state example_descriptor) 0x7000))"
    by (simp add: example_descriptor_def aligned_to_def)
  have h6: "kernel_entry (heap_BootInfo (example_state example_descriptor) 0x7000) \<noteq> 0"
    by (simp add: example_descriptor_def)
  have h7: "framebuffer_addr (heap_BootInfo (example_state example_descriptor) 0x7000) \<noteq> 0"
    by (simp add: example_descriptor_def)
  have h8: "memory_map_addr (heap_BootInfo (example_state example_descriptor) 0x7000) \<noteq> 0"
    by (simp add: example_descriptor_def)
  have e: "errno (example_state example_descriptor) = 0"
    by simp
  from validate_all_checks_pass [OF h1 h2 h3 h4 h5 h6 h7 h8] e h1 h2 h3 h4 h5 h6 h7 h8
  show ?thesis by simp
qed

section \<open>A descriptor inside the text buffer\<close>

text \<open>
  Nothing in the code keeps the descriptor apart from the text buffer. With the
  first example descriptor placed at \<open>0xB8000\<close>, lines 65 and 66 overwrite
  its magic number with \<open>0x074B074F\<close>: lines 69 and 70 then show the glyphs
  \<open>?\<close> and \<open>4\<close>, the validator stores 7, and the descriptor is handed on as
  invalid.
\<close>

lemma descriptor_in_text_buffer:
  "w16_stores (emitted (example_state_at 0xB8000 example_descriptor)
       (handoff_state 0xB8000 (example_state_at 0xB8000 example_descriptor))) =
     [(index_w16 vga 0, 0x074F), (index_w16 vga 1, 0x074B),
      (index_w16 vga 2, 0x073F), (index_w16 vga 3, 0x0734)]"
  "int_stores (emitted (example_state_at 0xB8000 example_descriptor)
       (handoff_state 0xB8000 (example_state_at 0xB8000 example_descriptor))) = [(0x9000, 7)]"
  "handoff_record 0xB8000 (example_state_at 0xB8000 example_descriptor) =
     \<lparr>input = 0xB8000, validity = False\<rparr>"
  using magic_in_text_buffer(3) [of vga "example_state_at 0xB8000 example_descriptor"]
    glyphs_in_text_buffer [of "example_state_at 0xB8000 example_descriptor"]
  by (simp_all add: handoff_emitted validate_emitted handoff_record_eq validate_verdict vga_def)

section \<open>The handoff\<close>

text \<open>
  Claim C4. Every run of \<open>kernel_main\<close> calls the next stage exactly once,
  whatever the verdict: its outcome is the outcome of the one call, and the
  trace of the run holds exactly one call event. The record passed has the
  pointer \<open>bi\<close> it was given as \<open>input\<close>, and as \<open>validity\<close> the verdict of
  the validator's call, which is made on the memory as lines 65 to 70 have left
  it. When the descriptor does not overlap the four text cells, this is the
  verdict for the descriptor as \<open>kernel_main\<close> received it.
\<close>

theorem kernel_main_hands_off_once:
  "kernel_main R bi s =
     R \<lparr>input = bi, validity = fst (validate_boot_info bi (display_state bi s))\<rparr>
       (handoff_state bi s)
   \<and> filter is_call_rust_kernel_entry (emitted s (handoff_state bi s)) =
     [CallRustKernelEntry
        \<lparr>input = bi, validity = fst (validate_boot_info bi (display_state bi s))\<rparr>]
   \<and> (ranges_disjoint bi 64 vga 8 \<longrightarrow>
        fst (validate_boot_info bi (display_state bi s)) = fst (validate_boot_info bi s))"
  using verdict_frame [OF descriptor_clear(3), of bi s]
  by (simp add: kernel_main_eq handoff_record_eq handoff_emitted validate_emitted)

theorem kernel_main_hands_off_once_witness:
  "ranges_disjoint 0x7000 64 vga 8
   \<and> kernel_main (\<lambda>vbi t. Some t) 0x7000 (example_state example_descriptor) =
     Some (handoff_state 0x7000 (example_state example_descriptor))
   \<and> filter is_call_rust_kernel_entry
       (emitted (example_state example_descriptor)
          (handoff_state 0x7000 (example_state example_descriptor))) =
     [CallRustKernelEntry \<lparr>input = 0x7000, validity = True\<rparr>]
   \<and> filter is_call_rust_kernel_entry
       (emitted (example_state wrong_magic_descriptor)
          (handoff_state 0x7000 (example_state wrong_magic_descriptor))) =
     [CallRustKernelEntry \<lparr>input = 0x7000, validity = False\<rparr>]"
  using kernel_main_hands_off_once [of "\<lambda>vbi t. Some t" "0x7000" "example_state example_descriptor"]
    kernel_main_hands_off_once [of "\<lambda>vbi t. Some t" "0x7000" "example_state wrong_magic_descriptor"]
  by (simp only: example_clear example_verdicts simp_thms)

section \<open>The text buffer\<close>

text \<open>
  Claim C5, as the specification states it, asks for the low byte of the magic
  number as two hexadecimal-digit glyphs. The code adds each nibble to the
  code of \<open>0\<close>, so a nibble above 9 gives one of \<open>: ; < = > ?\<close>. With the
  magic number \<open>0xDEADBEEF\<close> the cell at offset 2 holds \<open>?\<close> (0x3F), which is
  no hexadecimal digit.
\<close>

theorem display_glyph_not_hexadecimal:
  "\<not> is_hex_digit_glyph (cell_ascii (heap_w16
       (handoff_state 0x7000 (example_state wrong_magic_descriptor)) (index_w16 vga 2)))"
proof -
  have "heap_w16 (handoff_state 0x7000 (example_state wrong_magic_descriptor)) (index_w16 vga 2) =
      low_glyph 0x7000 (example_state wrong_magic_descriptor)"
    by (rule handoff_cells) (simp add: example_clear)
  moreover have "low_glyph 0x7000 (example_state wrong_magic_descriptor) = 0x073F"
    using descriptor_clear(1) [OF example_clear(1), of "example_state wrong_magic_descriptor"]
    by (simp add: low_glyph_def wrong_magic_descriptor_def)
  ultimately show ?thesis
    by (simp add: cell_ascii_def is_hex_digit_glyph_def)
qed

text \<open>
  Claim C5, amended. Every run of \<open>kernel_main\<close> stores to exactly four cells
  of the text buffer, those at offsets 0 to 3, once each and in this order.
  Each value stored has the attribute byte 0x07. The ASCII bytes are \<open>O\<close>
  (0x4F) and \<open>K\<close> (0x4B) at offsets 0 and 1, and at offsets 2 and 3 they are
  0x30 plus the low nibble and 0x30 plus the next nibble of the magic number as
  lines 69 and 70 read it; such a glyph is a hexadecimal digit exactly when its
  nibble is at most 9. When the descriptor does not overlap the four cells, the
  magic number read is the one of the descriptor as \<open>kernel_main\<close> received
  it. When the diagnostic code does not overlap the four cells, the cells hold
  the stored values at the handoff.
\<close>

theorem display_cells_written:
  "w16_stores (emitted s (handoff_state bi s)) =
     [(index_w16 vga 0, 0x074F), (index_w16 vga 1, 0x074B),
      (index_w16 vga 2, low_glyph bi s), (index_w16 vga 3, high_glyph bi s)]
   \<and> cell_attribute 0x074F = 0x07 \<and> cell_attribute 0x074B = 0x07
   \<and> cell_attribute (low_glyph bi s) = 0x07 \<and> cell_attribute (high_glyph bi s) = 0x07
   \<and> cell_ascii 0x074F = 0x4F \<and> cell_ascii 0x074B = 0x4B
   \<and> cell_ascii (low_glyph bi s) =
       0x30 + ucast (multiboot_magic (heap_BootInfo (after_signature s) bi) AND 0xF)
   \<and> cell_ascii (high_glyph bi s) =
       0x30 + ucast (drop_bit 4 (multiboot_magic (heap_BootInfo (after_low_glyph bi s) bi)) AND 0xF)
   \<and> is_hex_digit_glyph (cell_ascii (low_glyph bi s)) =
       (multiboot_magic (heap_BootInfo (after_signature s) bi) AND 0xF \<le> 9)
   \<and> is_hex_digit_glyph (cell_ascii (high_glyph bi s)) =
       (drop_bit 4 (multiboot_magic (heap_BootInfo (after_low_glyph bi s) bi)) AND 0xF \<le> 9)
   \<and> (ranges_disjoint bi 64 vga 8 \<longrightarrow>
        heap_BootInfo (after_signature s) bi = heap_BootInfo s bi
        \<and> heap_BootInfo (after_low_glyph bi s) bi = heap_BootInfo s bi)
   \<and> (ranges_disjoint vga 8 (errno_location s) 4 \<longrightarrow>
        heap_w16 (handoff_state bi s) (index_w16 vga 0) = 0x074F
        \<and> heap_w16 (handoff_state bi s) (index_w16 vga 1) = 0x074B
        \<and> heap_w16 (handoff_state bi s) (index_w16 vga 2) = low_glyph bi s
        \<and> heap_w16 (handoff_state bi s) (index_w16 vga 3) = high_glyph bi s)
   \<and> kernel_main R bi s = R (handoff_record bi s) (handoff_state bi s)"
proof -
  have e: "w16_stores (emitted s (handoff_state bi s)) =
     [(index_w16 vga 0, 0x074F), (index_w16 vga 1, 0x074B),
      (index_w16 vga 2, low_glyph bi s), (index_w16 vga 3, high_glyph bi s)]"
    by (simp add: handoff_emitted validate_emitted)
  have d: "ranges_disjoint bi 64 vga 8 \<longrightarrow>
        heap_BootInfo (after_signature s) bi = heap_BootInfo s bi
        \<and> heap_BootInfo (after_low_glyph bi s) bi = heap_BootInfo s bi"
    by (simp add: descriptor_clear)
  have c: "ranges_disjoint vga 8 (errno_location s) 4 \<longrightarrow>
        heap_w16 (handoff_state bi s) (index_w16 vga 0) = 0x074F
        \<and> heap_w16 (handoff_state bi s) (index_w16 vga 1) = 0x074B
        \<and> heap_w16 (handoff_state bi s) (index_w16 vga 2) = low_glyph bi s
        \<and> heap_w16 (handoff_state bi s) (index_w16 vga 3) = high_glyph bi s"
    using handoff_cells [of s bi] by blast
  show ?thesis
    unfolding low_glyph_def [of bi s] high_glyph_def [of bi s]
    by (intro conjI e [unfolded low_glyph_def high_glyph_def] d
          c [unfolded low_glyph_def high_glyph_def] fixed_cell glyph_cell kernel_main_eq)
qed

theorem display_cells_written_witness:
  "ranges_disjoint 0x7000 64 vga 8
   \<and> ranges_disjoint vga 8 (errno_location (example_state example_descriptor)) 4
   \<and> heap_w16 (handoff_state 0x7000 (example_state example_descriptor)) (index_w16 vga 2) =
       low_glyph 0x7000 (example_state example_descriptor)
   \<and> heap_w16 (handoff_state 0x7000 (example_state example_descriptor)) (index_w16 vga 3) =
       high_glyph 0x7000 (example_state example_descriptor)
   \<and> cell_ascii (low_glyph 0x7000 (example_state example_descriptor)) = 0x39
   \<and> cell_ascii (high_glyph 0x7000 (example_state example_descriptor)) = 0x38
   \<and> is_hex_digit_glyph (cell_ascii (low_glyph 0x7000 (example_state example_descriptor)))
   \<and> is_hex_digit_glyph (cell_ascii (high_glyph 0x7000 (example_state example_descriptor)))"
proof -
  have h: "ranges_disjoint 0x7000 64 vga 8"
    "ranges_disjoint vga 8 (errno_location (example_state example_descriptor)) 4"
    by (simp_all add: example_clear)
  note w = display_cells_written
    [of "example_state example_descriptor" "0x7000" "\<lambda>vbi t. Some t"]
  from w h have m: "heap_BootInfo (after_signature (example_state example_descriptor)) 0x7000 =
      example_descriptor"
    "heap_BootInfo (after_low_glyph 0x7000 (example_state example_descriptor)) 0x7000 =
      example_descriptor"
    by simp_all
  have n: "multiboot_magic example_descriptor AND 0xF = 9"
    "drop_bit 4 (multiboot_magic example_descriptor) AND 0xF = 8"
    by (simp_all add: example_descriptor_def)
  have u: "(0x30 :: 8 word) + ucast (9 :: 32 word) = 0x39"
    "(0x30 :: 8 word) + ucast (8 :: 32 word) = 0x38"
    "((9 :: 32 word) \<le> 9) = True" "((8 :: 32 word) \<le> 9) = True"
    by simp_all
  show ?thesis
    using w h unfolding m n u by blast
qed

section \<open>What a run writes\<close>

text \<open>
  Claim C6, as the specification states it, holds for every descriptor. A
  descriptor that lies in the text buffer is overwritten: with the first
  example descriptor at \<open>0xB8000\<close>, the descriptor at the handoff is not the
  one \<open>kernel_main\<close> received. So is a descriptor on which the diagnostic
  code lies: with the diagnostic code at the address of the second example
  descriptor, the validator's store of 7 replaces the magic number.
\<close>

theorem kernel_main_overwrites_descriptor:
  "heap_BootInfo (handoff_state 0xB8000 (example_state_at 0xB8000 example_descriptor)) 0xB8000
     \<noteq> heap_BootInfo (example_state_at 0xB8000 example_descriptor) 0xB8000
   \<and> heap_BootInfo (handoff_state 0x7000 errno_in_descriptor_state) 0x7000
     \<noteq> heap_BootInfo errno_in_descriptor_state 0x7000"
proof -
  have "multiboot_magic (heap_BootInfo
      (handoff_state vga (example_state_at 0xB8000 example_descriptor)) vga) = 0x074B074F"
    by (simp add: validate_descriptor example_clear magic_in_text_buffer)
  moreover have "multiboot_magic (heap_BootInfo
      (example_state_at 0xB8000 example_descriptor) 0xB8000) = 0x36d76289"
    by (simp add: example_descriptor_def)
  ultimately have a: "heap_BootInfo
      (handoff_state 0xB8000 (example_state_at 0xB8000 example_descriptor)) 0xB8000
     \<noteq> heap_BootInfo (example_state_at 0xB8000 example_descriptor) 0xB8000"
    by (auto simp add: vga_def)
  have "multiboot_magic (heap_BootInfo (display_state 0x7000 errno_in_descriptor_state) 0x7000)
      = 0xDEADBEEF"
    using descriptor_clear(3) [OF example_clear(1), of errno_in_descriptor_state]
    by (simp add: wrong_magic_descriptor_def)
  then have "errno (handoff_state 0x7000 errno_in_descriptor_state) = 7"
    by (simp add: handoff_errno validate_errno)
  then have "multiboot_magic (heap_BootInfo (handoff_state 0x7000 errno_in_descriptor_state) 0x7000)
      = 7"
    by (simp add: magic_is_int errno_def)
  moreover have "multiboot_magic (heap_BootInfo errno_in_descriptor_state 0x7000) = 0xDEADBEEF"
    by (simp add: wrong_magic_descriptor_def)
  ultimately have b: "heap_BootInfo (handoff_state 0x7000 errno_in_descriptor_state) 0x7000
     \<noteq> heap_BootInfo errno_in_descriptor_state 0x7000"
    by auto
  from a b show ?thesis by (rule conjI)
qed

text \<open>
  Claim C6, amended. The stores of a run of \<open>kernel_main\<close> go to the
  diagnostic code and to the four cells of the text buffer only, and every byte
  of memory outside the 8 bytes of the four cells and the 4 bytes of the
  diagnostic code is at the handoff what it was before. So a descriptor whose
  64 bytes overlap neither the four cells nor the diagnostic code is not
  changed. The call is the last thing \<open>kernel_main\<close> does.
\<close>

theorem kernel_main_frame:
  "written (emitted s (handoff_state bi s)) \<subseteq>
       {IntCell (errno_location s), W16Cell (index_w16 vga 0), W16Cell (index_w16 vga 1),
        W16Cell (index_w16 vga 2), W16Cell (index_w16 vga 3)}
   \<and> (in_range a vga 8 \<or> in_range a (errno_location s) 4
        \<or> mem (handoff_state bi s) a = mem s a)
   \<and> errno_location (handoff_state bi s) = errno_location s
   \<and> (ranges_disjoint bi 64 vga 8 \<and> ranges_disjoint bi 64 (errno_location s) 4 \<longrightarrow>
        heap_BootInfo (handoff_state bi s) bi = heap_BootInfo s bi)
   \<and> kernel_main R bi s = R (handoff_record bi s) (handoff_state bi s)"
proof -
  have w: "written (emitted s (handoff_state bi s)) \<subseteq>
       {IntCell (errno_location s), W16Cell (index_w16 vga 0), W16Cell (index_w16 vga 1),
        W16Cell (index_w16 vga 2), W16Cell (index_w16 vga 3)}"
    by (simp add: handoff_emitted validate_emitted)
  have m: "in_range a vga 8 \<or> in_range a (errno_location s) 4
        \<or> mem (handoff_state bi s) a = mem s a"
    using handoff_mem [of a s bi] by blast
  have d: "ranges_disjoint bi 64 vga 8 \<and> ranges_disjoint bi 64 (errno_location s) 4 \<longrightarrow>
        heap_BootInfo (handoff_state bi s) bi = heap_BootInfo s bi"
    using handoff_descriptor [of bi s] by blast
  from w m d kernel_main_eq [of R bi s] handoff_sel(1) [of bi s] show ?thesis by blast
qed

theorem kernel_main_frame_witness:
  "ranges_disjoint 0x7000 64 vga 8
   \<and> ranges_disjoint 0x7000 64 (errno_location (example_state wrong_magic_descriptor)) 4
   \<and> heap_BootInfo (handoff_state 0x7000 (example_state wrong_magic_descriptor)) 0x7000 =
       wrong_magic_descriptor
   \<and> mem (handoff_state 0x7000 (example_state wrong_magic_descriptor)) 0x7000 =
       mem (example_state wrong_magic_descriptor) 0x7000"
proof -
  have h: "ranges_disjoint 0x7000 64 vga 8"
    "ranges_disjoint 0x7000 64 (errno_location (example_state wrong_magic_descriptor)) 4"
    by (simp_all add: example_clear)
  have r: "\<not> in_range 0x7000 vga 8"
    "\<not> in_range 0x7000 (errno_location (example_state wrong_magic_descriptor)) 4"
    by (simp_all add: in_range_def vga_def)
  from kernel_main_frame
    [of "example_state wrong_magic_descriptor" "0x7000" "0x7000" "\<lambda>vbi t. Some t"] h r
  have "heap_BootInfo (handoff_state 0x7000 (example_state wrong_magic_descriptor)) 0x7000 =
      heap_BootInfo (example_state wrong_magic_descriptor) 0x7000"
    and "mem (handoff_state 0x7000 (example_state wrong_magic_descriptor)) 0x7000 =
      mem (example_state wrong_magic_descriptor) 0x7000"
    by blast+
  with h show ?thesis by (simp only: example_state_sel simp_thms)
qed

section \<open>No way back\<close>

text \<open>
  Claim C7. \<open>kernel_main\<close> never returns: with the next stage as the
  specification describes it, a run has no final state. The call is the last
  action of \<open>kernel_main\<close>: whatever the next stage is, the outcome of
  \<open>kernel_main\<close> is the outcome of that call, and the call is the last event
  of the trace at the handoff.
\<close>

theorem kernel_main_never_returns:
  "kernel_main rust_kernel_entry bi s = None
   \<and> kernel_main R bi s = R (handoff_record bi s) (handoff_state bi s)
   \<and> last (trace (handoff_state bi s)) = CallRustKernelEntry (handoff_record bi s)"
  by (simp add: kernel_main_eq rust_kernel_entry_def handoff_state_eq handoff_record_eq)

theorem kernel_main_never_returns_witness:
  "kernel_main rust_kernel_entry 0x7000 (example_state example_descriptor) = None
   \<and> kernel_main rust_kernel_entry 0x7000 (example_state wrong_magic_descriptor) = None
   \<and> last (trace (handoff_state 0x7000 (example_state example_descriptor))) =
       CallRustKernelEntry \<lparr>input = 0x7000, validity = True\<rparr>
   \<and> last (trace (handoff_state 0x7000 (example_state wrong_magic_descriptor))) =
       CallRustKernelEntry \<lparr>input = 0x7000, validity = False\<rparr>"
  using kernel_main_never_returns [of "0x7000" "example_state example_descriptor" rust_kernel_entry]
    kernel_main_never_returns [of "0x7000" "example_state wrong_magic_descriptor" rust_kernel_entry]
  by (simp only: handoff_record_eq example_display_verdicts example_verdicts simp_thms)

section \<open>What the outputs depend on\<close>

text \<open>
  Claim C8. Two descriptors that agree on the six checked fields get the same
  verdict and the same effect on the diagnostic code, whatever their other
  four fields (and whatever else the two memories hold): the same codes are
  stored, and either a code is stored and the diagnostic code is the same
  afterwards, or none is and both memories keep their \<open>int\<close> cells.
\<close>

theorem validate_ignores_unchecked_fields:
  assumes "multiboot_magic (heap_BootInfo s1 b1) = multiboot_magic (heap_BootInfo s2 b2)"
    and "page_table_base (heap_BootInfo s1 b1) = page_table_base (heap_BootInfo s2 b2)"
    and "stack_top (heap_BootInfo s1 b1) = stack_top (heap_BootInfo s2 b2)"
    and "kernel_entry (heap_BootInfo s1 b1) = kernel_entry (heap_BootInfo s2 b2)"
    and "framebuffer_addr (heap_BootInfo s1 b1) = framebuffer_addr (heap_BootInfo s2 b2)"
    and "memory_map_addr (heap_BootInfo s1 b1) = memory_map_addr (heap_BootInfo s2 b2)"
  shows "fst (validate_boot_info b1 s1) = fst (validate_boot_info b2 s2)
     \<and> map snd (int_stores (emitted s1 (snd (validate_boot_info b1 s1)))) =
       map snd (int_stores (emitted s2 (snd (validate_boot_info b2 s2))))
     \<and> (int_stores (emitted s1 (snd (validate_boot_info b1 s1))) \<noteq> []
         \<and> errno (snd (validate_boot_info b1 s1)) = errno (snd (validate_boot_info b2 s2))
        \<or> int_stores (emitted s1 (snd (validate_boot_info b1 s1))) = []
         \<and> heap_int (snd (validate_boot_info b1 s1)) = heap_int s1
         \<and> heap_int (snd (validate_boot_info b2 s2)) = heap_int s2)"
proof -
  have v: "fst (validate_boot_info b1 s1) = fst (validate_boot_info b2 s2)"
    using assms by (simp add: validate_verdict)
  show ?thesis
    using validate_cases [of b1 s1] validate_cases [of b2 s2] v assms
    by (elim disjE conjE) (simp_all add: emitted_def errno_def)
qed

theorem validate_ignores_unchecked_fields_witness:
  "multiboot_info example_descriptor \<noteq> multiboot_info other_platform_descriptor
   \<and> cpuid_edx example_descriptor \<noteq> cpuid_edx other_platform_descriptor
   \<and> cpuid_ecx example_descriptor \<noteq> cpuid_ecx other_platform_descriptor
   \<and> boot_entry example_descriptor \<noteq> boot_entry other_platform_descriptor
   \<and> fst (validate_boot_info 0x7000 (example_state example_descriptor)) =
       fst (validate_boot_info 0x8000 (example_state_at 0x8000 other_platform_descriptor))
   \<and> map snd (int_stores (emitted (example_state example_descriptor)
         (snd (validate_boot_info 0x7000 (example_state example_descriptor))))) =
       map snd (int_stores (emitted (example_state_at 0x8000 other_platform_descriptor)
         (snd (validate_boot_info 0x8000 (example_state_at 0x8000 other_platform_descriptor)))))"
proof -
  have d: "multiboot_info example_descriptor \<noteq> multiboot_info other_platform_descriptor"
    "cpuid_edx example_descriptor \<noteq> cpuid_edx other_platform_descriptor"
    "cpuid_ecx example_descriptor \<noteq> cpuid_ecx other_platform_descriptor"
    "boot_entry example_descriptor \<noteq> boot_entry other_platform_descriptor"
    by (simp_all add: example_descriptor_def other_platform_descriptor_def)
  have h1: "multiboot_magic (heap_BootInfo (example_state example_descriptor) 0x7000) =
      multiboot_magic (heap_BootInfo (example_state_at 0x8000 other_platform_descriptor) 0x8000)"
    by (simp add: other_platform_descriptor_def)
  have h2: "page_table_base (heap_BootInfo (example_state example_descriptor) 0x7000) =
      page_table_base (heap_BootInfo (example_state_at 0x8000 other_platform_descriptor) 0x8000)"
    by (simp add: other_platform_descriptor_def)
  have h3: "stack_top (heap_BootInfo (example_state example_descriptor) 0x7000) =
      stack_top (heap_BootInfo (example_state_at 0x8000 other_platform_descriptor) 0x8000)"
    by (simp add: other_platform_descriptor_def)
  have h4: "kernel_entry (heap_BootInfo (example_state example_descriptor) 0x7000) =
      kernel_entry (heap_BootInfo (example_state_at 0x8000 other_platform_descriptor) 0x8000)"
    by (simp add: other_platform_descriptor_def)
  have h5: "framebuffer_addr (heap_BootInfo (example_state example_descriptor) 0x7000) =
      framebuffer_addr (heap_BootInfo (example_state_at 0x8000 other_platform_descriptor) 0x8000)"
    by (simp add: other_platform_descriptor_def)
  have h6: "memory_map_addr (heap_BootInfo (example_state example_descriptor) 0x7000) =
      memory_map_addr (heap_BootInfo (example_state_at 0x8000 other_platform_descriptor) 0x8000)"
    by (simp add: other_platform_descriptor_def)
  from validate_ignores_unchecked_fields [OF h1 h2 h3 h4 h5 h6] d show ?thesis by blast
qed

section \<open>What the text buffer depends on\<close>

text \<open>
  Claim C9, as the specification states it, holds for any two descriptors whose
  magic numbers have the same low byte. The same descriptor placed at
  \<open>0x7000\<close> and placed in the text buffer at \<open>0xB8000\<close> gives different cells
  at offset 2: \<open>9\<close> in the first run, \<open>?\<close> in the second.
\<close>

theorem display_differs_for_descriptor_in_text_buffer:
  "multiboot_magic (heap_BootInfo (example_state example_descriptor) 0x7000) AND 0xFF =
     multiboot_magic (heap_BootInfo (example_state_at 0xB8000 example_descriptor) 0xB8000) AND 0xFF
   \<and> heap_w16 (handoff_state 0x7000 (example_state example_descriptor)) (index_w16 vga 2) = 0x0739
   \<and> heap_w16 (handoff_state 0xB8000 (example_state_at 0xB8000 example_descriptor))
       (index_w16 vga 2) = 0x073F"
proof -
  have a: "heap_w16 (handoff_state 0x7000 (example_state example_descriptor)) (index_w16 vga 2) =
      low_glyph 0x7000 (example_state example_descriptor)"
    by (rule handoff_cells) (simp add: example_clear)
  have b: "low_glyph 0x7000 (example_state example_descriptor) = 0x0739"
    using descriptor_clear(1) [OF example_clear(1), of "example_state example_descriptor"]
    by (simp add: low_glyph_def example_descriptor_def)
  have c: "heap_w16 (handoff_state vga (example_state_at 0xB8000 example_descriptor))
      (index_w16 vga 2) = low_glyph vga (example_state_at 0xB8000 example_descriptor)"
    by (rule handoff_cells) (simp add: example_clear)
  from a b c glyphs_in_text_buffer(1) [of "example_state_at 0xB8000 example_descriptor"]
  show ?thesis by (simp add: vga_def)
qed

text \<open>
  Claim C9, amended. Two descriptors whose magic numbers have the same low
  byte, neither of which overlaps the four text cells, get the same four
  stores to the text buffer, valid or not: the same values go to the same
  cells, and the four stores are the first four events of the run, before the
  validator starts with its call of \<open>__errno_location\<close>. When in both runs the
  diagnostic code does not overlap the four cells either, the four cells hold
  the same values at the handoff.
\<close>

theorem display_depends_on_low_byte_only:
  assumes "multiboot_magic (heap_BootInfo s1 b1) AND 0xFF =
      multiboot_magic (heap_BootInfo s2 b2) AND 0xFF"
    and "ranges_disjoint b1 64 vga 8" and "ranges_disjoint b2 64 vga 8"
  shows "w16_stores (emitted s1 (handoff_state b1 s1)) =
       w16_stores (emitted s2 (handoff_state b2 s2))
     \<and> take 4 (emitted s1 (handoff_state b1 s1)) =
       filter is_store_w16 (emitted s1 (handoff_state b1 s1))
     \<and> take 4 (emitted s2 (handoff_state b2 s2)) =
       filter is_store_w16 (emitted s2 (handoff_state b2 s2))
     \<and> emitted s1 (handoff_state b1 s1) ! 4 = CallErrnoLocation
     \<and> emitted s2 (handoff_state b2 s2) ! 4 = CallErrnoLocation
     \<and> (ranges_disjoint vga 8 (errno_location s1) 4
         \<and> ranges_disjoint vga 8 (errno_location s2) 4 \<longrightarrow>
         heap_w16 (handoff_state b1 s1) (index_w16 vga 0) =
           heap_w16 (handoff_state b2 s2) (index_w16 vga 0)
         \<and> heap_w16 (handoff_state b1 s1) (index_w16 vga 1) =
           heap_w16 (handoff_state b2 s2) (index_w16 vga 1)
         \<and> heap_w16 (handoff_state b1 s1) (index_w16 vga 2) =
           heap_w16 (handoff_state b2 s2) (index_w16 vga 2)
         \<and> heap_w16 (handoff_state b1 s1) (index_w16 vga 3) =
           heap_w16 (handoff_state b2 s2) (index_w16 vga 3))
     \<and> kernel_main R b1 s1 = R (handoff_record b1 s1) (handoff_state b1 s1)
     \<and> kernel_main R b2 s2 = R (handoff_record b2 s2) (handoff_state b2 s2)"
proof -
  from assms have g: "low_glyph b1 s1 = low_glyph b2 s2" "high_glyph b1 s1 = high_glyph b2 s2"
    using low_byte_nibbles [OF assms(1)]
    by (simp_all add: low_glyph_def high_glyph_def descriptor_clear)
  have c: "ranges_disjoint vga 8 (errno_location s1) 4
         \<and> ranges_disjoint vga 8 (errno_location s2) 4 \<longrightarrow>
         heap_w16 (handoff_state b1 s1) (index_w16 vga 0) =
           heap_w16 (handoff_state b2 s2) (index_w16 vga 0)
         \<and> heap_w16 (handoff_state b1 s1) (index_w16 vga 1) =
           heap_w16 (handoff_state b2 s2) (index_w16 vga 1)
         \<and> heap_w16 (handoff_state b1 s1) (index_w16 vga 2) =
           heap_w16 (handoff_state b2 s2) (index_w16 vga 2)
         \<and> heap_w16 (handoff_state b1 s1) (index_w16 vga 3) =
           heap_w16 (handoff_state b2 s2) (index_w16 vga 3)"
    using handoff_cells [of s1 b1] handoff_cells [of s2 b2] g by simp
  have e: "w16_stores (emitted s1 (handoff_state b1 s1)) =
       w16_stores (emitted s2 (handoff_state b2 s2))
     \<and> take 4 (emitted s1 (handoff_state b1 s1)) =
       filter is_store_w16 (emitted s1 (handoff_state b1 s1))
     \<and> take 4 (emitted s2 (handoff_state b2 s2)) =
       filter is_store_w16 (emitted s2 (handoff_state b2 s2))
     \<and> emitted s1 (handoff_state b1 s1) ! 4 = CallErrnoLocation
     \<and> emitted s2 (handoff_state b2 s2) ! 4 = CallErrnoLocation"
    using g by (simp add: handoff_emitted validate_emitted)
  from c e kernel_main_eq [of R b1 s1] kernel_main_eq [of R b2 s2] show ?thesis by blast
qed

theorem display_depends_on_low_byte_only_witness:
  "multiboot_magic (heap_BootInfo (example_state example_descriptor) 0x7000) AND 0xFF =
     multiboot_magic (heap_BootInfo (example_state_at 0x8000 same_low_byte_descriptor) 0x8000)
       AND 0xFF
   \<and> ranges_disjoint 0x7000 64 vga 8 \<and> ranges_disjoint 0x8000 64 vga 8
   \<and> ranges_disjoint vga 8 (errno_location (example_state example_descriptor)) 4
   \<and> ranges_disjoint vga 8 (errno_location (example_state_at 0x8000 same_low_byte_descriptor)) 4
   \<and> fst (validate_boot_info 0x7000 (example_state example_descriptor)) = True
   \<and> fst (validate_boot_info 0x8000 (example_state_at 0x8000 same_low_byte_descriptor)) = False
   \<and> w16_stores (emitted (example_state example_descriptor)
         (handoff_state 0x7000 (example_state example_descriptor))) =
       w16_stores (emitted (example_state_at 0x8000 same_low_byte_descriptor)
         (handoff_state 0x8000 (example_state_at 0x8000 same_low_byte_descriptor)))
   \<and> heap_w16 (handoff_state 0x7000 (example_state example_descriptor)) (index_w16 vga 2) =
       heap_w16 (handoff_state 0x8000 (example_state_at 0x8000 same_low_byte_descriptor))
         (index_w16 vga 2)
   \<and> heap_w16 (handoff_state 0x7000 (example_state example_descriptor)) (index_w16 vga 3) =
       heap_w16 (handoff_state 0x8000 (example_state_at 0x8000 same_low_byte_descriptor))
         (index_w16 vga 3)"
proof -
  have h: "multiboot_magic (heap_BootInfo (example_state example_descriptor) 0x7000) AND 0xFF =
     multiboot_magic (heap_BootInfo (example_state_at 0x8000 same_low_byte_descriptor) 0x8000)
       AND 0xFF"
    by (simp add: example_descriptor_def same_low_byte_descriptor_def)
  have d: "ranges_disjoint 0x7000 64 vga 8" "ranges_disjoint 0x8000 64 vga 8"
    "ranges_disjoint vga 8 (errno_location (example_state example_descriptor)) 4"
    "ranges_disjoint vga 8 (errno_location (example_state_at 0x8000 same_low_byte_descriptor)) 4"
    by (simp_all add: example_clear)
  from display_depends_on_low_byte_only [OF h d(1) d(2), of "\<lambda>vbi t. Some t"] h d
    example_verdicts(1) example_verdicts(7)
  show ?thesis by blast
qed

section \<open>The diagnostic code\<close>

text \<open>
  Claim C10. A run of \<open>kernel_main\<close> runs the validator exactly once (each
  run of the validator calls \<open>__errno_location\<close> exactly once, and so does a
  run of \<open>kernel_main\<close>). The diagnostic code is stored at most once, with 7
  or with 2: with 7 exactly when the magic check fails, with 2 exactly when the
  magic check passes and one of the five structural checks fails, on the
  descriptor as the validator reads it. After a store the diagnostic code has
  the value stored; without a store the validator leaves the memory as it
  found it. When the descriptor does not overlap the four text cells, the
  validator reads the descriptor as \<open>kernel_main\<close> received it; when the
  diagnostic code does not overlap them and nothing is stored, it has its
  value from before the run.
\<close>

theorem diagnostic_code_stored_at_most_once:
  "count_list (emitted s (handoff_state bi s)) CallErrnoLocation = 1
   \<and> count_list (emitted s (snd (validate_boot_info bi s))) CallErrnoLocation = 1
   \<and> (int_stores (emitted s (handoff_state bi s)) = []
      \<or> int_stores (emitted s (handoff_state bi s)) = [(errno_location s, 7)]
      \<or> int_stores (emitted s (handoff_state bi s)) = [(errno_location s, 2)])
   \<and> (int_stores (emitted s (handoff_state bi s)) = [(errno_location s, 7)])
       = (multiboot_magic (heap_BootInfo (display_state bi s) bi) \<noteq> 0x36d76289)
   \<and> (int_stores (emitted s (handoff_state bi s)) = [(errno_location s, 2)])
       = (multiboot_magic (heap_BootInfo (display_state bi s) bi) = 0x36d76289
          \<and> (page_table_base (heap_BootInfo (display_state bi s) bi) = 0
            \<or> \<not> aligned_to 4096 (page_table_base (heap_BootInfo (display_state bi s) bi))
            \<or> stack_top (heap_BootInfo (display_state bi s) bi) = 0
            \<or> \<not> aligned_to 16 (stack_top (heap_BootInfo (display_state bi s) bi))
            \<or> kernel_entry (heap_BootInfo (display_state bi s) bi) = 0
            \<or> framebuffer_addr (heap_BootInfo (display_state bi s) bi) = 0
            \<or> memory_map_addr (heap_BootInfo (display_state bi s) bi) = 0))
   \<and> (int_stores (emitted s (handoff_state bi s)) = [(errno_location s, 7)] \<longrightarrow>
        errno (handoff_state bi s) = 7)
   \<and> (int_stores (emitted s (handoff_state bi s)) = [(errno_location s, 2)] \<longrightarrow>
        errno (handoff_state bi s) = 2)
   \<and> (int_stores (emitted s (handoff_state bi s)) = [] \<longrightarrow>
        mem (handoff_state bi s) = mem (display_state bi s))
   \<and> (ranges_disjoint bi 64 vga 8 \<longrightarrow>
        heap_BootInfo (display_state bi s) bi = heap_BootInfo s bi)
   \<and> (ranges_disjoint vga 8 (errno_location s) 4 \<longrightarrow>
        int_stores (emitted s (handoff_state bi s)) = [] \<longrightarrow>
        errno (handoff_state bi s) = errno s)
   \<and> kernel_main R bi s = R (handoff_record bi s) (handoff_state bi s)"
proof -
  have i: "int_stores (emitted s (handoff_state bi s)) =
      (if multiboot_magic (heap_BootInfo (display_state bi s) bi) \<noteq> 0x36d76289
       then [(errno_location s, 7)]
       else if fst (validate_boot_info bi (display_state bi s)) then []
       else [(errno_location s, 2)])"
    by (simp add: handoff_emitted validate_emitted)
  have n: "count_list (emitted s (handoff_state bi s)) CallErrnoLocation = 1"
    "count_list (emitted s (snd (validate_boot_info bi s))) CallErrnoLocation = 1"
    by (simp_all add: handoff_emitted validate_emitted)
  have e: "errno (handoff_state bi s) =
      (if multiboot_magic (heap_BootInfo (display_state bi s) bi) \<noteq> 0x36d76289 then 7
       else if fst (validate_boot_info bi (display_state bi s))
         then errno (display_state bi s) else 2)"
    by (simp add: handoff_errno validate_errno)
  have p: "fst (validate_boot_info bi (display_state bi s)) \<Longrightarrow>
      mem (handoff_state bi s) = mem (display_state bi s)"
    by (simp add: validate_mem_pass)
  have d: "ranges_disjoint bi 64 vga 8 \<longrightarrow>
      heap_BootInfo (display_state bi s) bi = heap_BootInfo s bi"
    by (simp add: descriptor_clear)
  have o: "ranges_disjoint vga 8 (errno_location s) 4 \<Longrightarrow> errno (display_state bi s) = errno s"
    by (simp add: errno_def display_state_int)
  show ?thesis
    unfolding i e using n p d o kernel_main_eq [of R bi s]
    by (auto simp add: validate_verdict)
qed

theorem diagnostic_code_stored_at_most_once_witness:
  "ranges_disjoint 0x7000 64 vga 8
   \<and> count_list (emitted (example_state misaligned_descriptor)
       (handoff_state 0x7000 (example_state misaligned_descriptor))) CallErrnoLocation = 1
   \<and> int_stores (emitted (example_state misaligned_descriptor)
       (handoff_state 0x7000 (example_state misaligned_descriptor))) = [(0x9000, 2)]
   \<and> errno (handoff_state 0x7000 (example_state misaligned_descriptor)) = 2"
proof -
  have h: "ranges_disjoint 0x7000 64 vga 8" by (simp add: example_clear)
  note w = diagnostic_code_stored_at_most_once
    [of "example_state misaligned_descriptor" "0x7000" "\<lambda>vbi t. Some t"]
  from w h have d: "heap_BootInfo (display_state 0x7000 (example_state misaligned_descriptor)) 0x7000
      = misaligned_descriptor"
    by simp
  have f: "multiboot_magic misaligned_descriptor = 0x36d76289"
    "\<not> aligned_to 4096 (page_table_base misaligned_descriptor)"
    by (simp_all add: misaligned_descriptor_def example_descriptor_def aligned_to_def)
  from w h f show ?thesis unfolding d by simp
qed

end
